theory Spec2Isabelle
  imports Main "HOL-Library.Sublist"
begin

section \<open>JavaScript string operations used by the output parser\<close>

text \<open>
  A JavaScript string is modelled as a \<open>string\<close>: one \<open>char\<close> per code unit, for
  the code units below 256. The three markers and every input of the examples are ASCII.
\<close>

text \<open>
  \<open>String.prototype.includes(m)\<close>: \<open>m\<close> occurs in \<open>s\<close> as a contiguous
  run of code units. The empty string occurs in every string.
\<close>

fun js_includes :: "'a list \<Rightarrow> 'a list \<Rightarrow> bool" where
  "js_includes [] m = (m = [])"
| "js_includes (x # xs) m = (prefix m (x # xs) \<or> js_includes xs m)"

text \<open>
  \<open>String.prototype.split(sep)\<close> with a string separator and no limit. The scan
  goes left to right and cuts at every occurrence of \<open>sep\<close> that does not overlap
  the one before; the pieces between the cuts are returned, so a string without the
  separator gives the one-element list of itself. With the empty separator the result
  is the list of the code units.
\<close>

function split_from :: "'a list \<Rightarrow> 'a list \<Rightarrow> 'a list list" where
  "split_from sep [] = [[]]"
| "split_from sep (x # xs) =
     (if sep \<noteq> [] \<and> prefix sep (x # xs)
      then [] # split_from sep (drop (length sep - 1) xs)
      else (case split_from sep xs of
              [] \<Rightarrow> [[x]]
            | p # ps \<Rightarrow> (x # p) # ps))"
  by pat_completeness auto
termination
  by (relation "measure (\<lambda>(sep, s). length s)") auto

definition js_split :: "'a list \<Rightarrow> 'a list \<Rightarrow> 'a list list" where
  "js_split s sep = (if sep = [] then map (\<lambda>c. [c]) s else split_from sep s)"

text \<open>
  Indexing an array: \<open>parts[i]\<close> is \<open>undefined\<close> (here \<open>None\<close>) beyond the end.
\<close>

definition js_at :: "'a list \<Rightarrow> nat \<Rightarrow> 'a option" where
  "js_at xs i = (if i < length xs then Some (xs ! i) else None)"

text \<open>
  \<open>String.prototype.trim()\<close> strips white space and line terminators from both
  ends. Among the code units below 256 these are TAB, LF, VT, FF, CR, SPACE and the
  no-break space 0xA0.
\<close>

definition is_ws :: "char \<Rightarrow> bool" where
  "is_ws c = (c \<in> set [CHR 0x09, CHR 0x0A, CHR 0x0B, CHR 0x0C, CHR 0x0D, CHR 0x20, CHR 0xA0])"

definition js_trim :: "string \<Rightarrow> string" where
  "js_trim s = rev (dropWhile is_ws (rev (dropWhile is_ws s)))"

text \<open>
  Template literals render a number in decimal: \<open>`${code}`\<close> for an exit code.
\<close>

function digits :: "nat \<Rightarrow> string" where
  "digits n =
     (if n < 10 then [''0123456789'' ! n]
      else digits (n div 10) @ [''0123456789'' ! (n mod 10)])"
  by pat_completeness auto
termination
  by (relation "measure id") auto

definition show_int :: "int \<Rightarrow> string" where
  "show_int i = (if i < 0 then CHR ''-'' # digits (nat (- i)) else digits (nat i))"

section \<open>The output parser of \<open>runPythonScript\<close>\<close>

definition EXTRACTED :: string where
  "EXTRACTED = ''Extracted information:''"

definition GENERATED :: string where
  "GENERATED = ''Generated new filename:''"

definition RENAMED :: string where
  "RENAMED = ''File renamed successfully to:''"

text \<open>The three local variables of \<open>runPythonScript\<close> that the listeners update.\<close>

record locals =
  extractedInfo :: string
  stdErr :: string
  newFilename :: string

definition init_locals :: locals where
  "init_locals = \<lparr>extractedInfo = [], stdErr = [], newFilename = []\<rparr>"

text \<open>
  The \<open>stdout\<close> listener of the first listing (lines 110 to 125). Each of the three
  \<open>if\<close> statements looks at \<open>output\<close>, the text of the chunk that has just arrived.
  Reading \<open>.split\<close> or \<open>.trim\<close> off \<open>undefined\<close> throws a TypeError inside the
  listener: that is the result \<open>None\<close>.
\<close>

definition onExtracted :: "string \<Rightarrow> locals \<Rightarrow> locals option" where
  "onExtracted output st =
     (if js_includes output EXTRACTED
      then (case js_at (js_split output EXTRACTED) 1 of
              None \<Rightarrow> None
            | Some p1 \<Rightarrow>
               (case js_at (js_split p1 GENERATED) 0 of
                  None \<Rightarrow> None
                | Some p \<Rightarrow> Some (st\<lparr>extractedInfo := js_trim p\<rparr>)))
      else Some st)"

definition onGenerated :: "string \<Rightarrow> locals \<Rightarrow> locals option" where
  "onGenerated output st =
     (if js_includes output GENERATED
      then (case js_at (js_split output GENERATED) 1 of
              None \<Rightarrow> None
            | Some p1 \<Rightarrow>
               (case js_at (js_split p1 RENAMED) 0 of
                  None \<Rightarrow> None
                | Some p \<Rightarrow> Some (st\<lparr>newFilename := js_trim p\<rparr>)))
      else Some st)"

definition onRenamed :: "string \<Rightarrow> locals \<Rightarrow> locals option" where
  "onRenamed output st =
     (if js_includes output RENAMED
      then (case js_at (js_split output RENAMED) 1 of
              None \<Rightarrow> None
            | Some p \<Rightarrow> Some (st\<lparr>newFilename := js_trim p\<rparr>))
      else Some st)"

definition onStdout :: "locals \<Rightarrow> string \<Rightarrow> locals option" where
  "onStdout st output =
     Option.bind (Option.bind (onExtracted output st) (onGenerated output)) (onRenamed output)"

text \<open>
  The \<open>stdout\<close> listener of the second listing (lines 254 to 281). It guards each
  capture with \<open>if (parts[1])\<close>, which is false for \<open>undefined\<close> and for the empty
  string (the variables then keep their values), and looks for the rename marker inside
  the text after the generated marker.
\<close>

definition onExtracted_venv :: "string \<Rightarrow> locals \<Rightarrow> locals option" where
  "onExtracted_venv output st =
     (if js_includes output EXTRACTED
      then (case js_at (js_split output EXTRACTED) 1 of
              None \<Rightarrow> Some st
            | Some p1 \<Rightarrow>
               if p1 = [] then Some st
               else (case js_at (js_split p1 GENERATED) 0 of
                       None \<Rightarrow> None
                     | Some p \<Rightarrow> Some (st\<lparr>extractedInfo := js_trim p\<rparr>)))
      else Some st)"

definition onGenerated_venv :: "string \<Rightarrow> locals \<Rightarrow> locals option" where
  "onGenerated_venv output st =
     (if js_includes output GENERATED
      then (case js_at (js_split output GENERATED) 1 of
              None \<Rightarrow> Some st
            | Some p1 \<Rightarrow>
               if p1 = [] then Some st
               else if js_includes p1 RENAMED
               then (case js_at (js_split p1 RENAMED) 1 of
                       None \<Rightarrow> None
                     | Some p \<Rightarrow> Some (st\<lparr>newFilename := js_trim p\<rparr>))
               else (case js_at (js_split p1 RENAMED) 0 of
                       None \<Rightarrow> None
                     | Some p \<Rightarrow> Some (st\<lparr>newFilename := js_trim p\<rparr>)))
      else Some st)"

definition onStdout_venv :: "locals \<Rightarrow> string \<Rightarrow> locals option" where
  "onStdout_venv st output =
     Option.bind (Option.bind (onExtracted_venv output st) (onGenerated_venv output))
       (onRenamed output)"

text \<open>The \<open>stderr\<close> listener of both listings: \<open>stdErr += data.toString()\<close>.\<close>

definition onStderr :: "locals \<Rightarrow> string \<Rightarrow> locals" where
  "onStderr st output = st\<lparr>stdErr := stdErr st @ output\<rparr>"

text \<open>A chunk holds a whole marker.\<close>

definition has_marker :: "string \<Rightarrow> bool" where
  "has_marker c = (js_includes c EXTRACTED \<or> js_includes c GENERATED \<or> js_includes c RENAMED)"

section \<open>The analyzer process and \<open>runPythonScript\<close>\<close>

text \<open>
  What a launched child process does is outside the program: the \<open>data\<close> events on
  its two pipes, in the order of their arrival, then the \<open>close\<close> event with the exit
  code (\<open>null\<close>, here \<open>None\<close>, when a signal ended the process), or no \<open>close\<close>
  event at all; and the files that exist once it has run (the analyzer may rename the
  file it was given). The code registers no listener for the \<open>error\<close> event of a
  process that could not be launched; such a launch is not part of the model.
\<close>

datatype event = Stdout string | Stderr string

text \<open>All that a run wrote to one pipe, whatever the chunking.\<close>

fun stdout_text :: "event list \<Rightarrow> string" where
  "stdout_text [] = []"
| "stdout_text (Stdout d # es) = d @ stdout_text es"
| "stdout_text (Stderr d # es) = stdout_text es"

fun stderr_text :: "event list \<Rightarrow> string" where
  "stderr_text [] = []"
| "stderr_text (Stdout d # es) = stderr_text es"
| "stderr_text (Stderr d # es) = d @ stderr_text es"

datatype close_ev = NeverCloses | Close "int option"

record proc_run =
  events :: "event list"
  closing :: close_ev
  fs_after :: "string set"

text \<open>
  One call of \<open>spawn(command, args)\<close>. The code passes no options, so the \<open>shell\<close>
  option has its default \<open>false\<close>: the argument vector goes to the child as it is.
\<close>

record spawn_call =
  command :: string
  args :: "string list"
  shell :: bool

type_synonym analyzer = "spawn_call \<Rightarrow> string set \<Rightarrow> proc_run"

text \<open>The analyzer whose process makes the run \<open>run\<close>, whatever it is given.\<close>

definition behaves :: "proc_run \<Rightarrow> analyzer" where
  "behaves run call files = run"

text \<open>
  The world a request runs in: the paths that exist on disk, the \<open>spawn\<close> calls made
  so far, and the console, one entry per \<open>console.log\<close> or \<open>console.error\<close> call
  (its label, then the text of its second argument: the message of an Error).
\<close>

record world =
  fs :: "string set"
  spawned :: "spawn_call list"
  console :: "(string \<times> string) list"

text \<open>
  \<open>path.join\<close>, for segments that are already normalised: joined with \<open>/\<close>.
  \<open>process.cwd()\<close> is a parameter of the model.
\<close>

fun path_join :: "string list \<Rightarrow> string" where
  "path_join [] = ''.''"
| "path_join [p] = p"
| "path_join (p # q # ps) = p @ ''/'' @ path_join (q # ps)"

datatype PythonScriptResult =
  PythonScriptResult (res_extractedInfo: string) (res_newFilename: string)

text \<open>How the promise of \<open>runPythonScript\<close> settles.\<close>

datatype settled = Resolved PythonScriptResult | Rejected string

fun feed :: "(locals \<Rightarrow> string \<Rightarrow> locals option) \<Rightarrow> locals \<Rightarrow> event \<Rightarrow> locals option" where
  "feed on_out st (Stdout d) = on_out st d"
| "feed on_out st (Stderr d) = Some (onStderr st d)"

fun listen :: "(locals \<Rightarrow> string \<Rightarrow> locals option) \<Rightarrow> locals \<Rightarrow> event list \<Rightarrow> locals option" where
  "listen on_out st [] = Some st"
| "listen on_out st (e # es) =
     (case feed on_out st e of None \<Rightarrow> None | Some st' \<Rightarrow> listen on_out st' es)"

definition show_code :: "int option \<Rightarrow> string" where
  "show_code code = (case code of None \<Rightarrow> ''null'' | Some n \<Rightarrow> show_int n)"

text \<open>The \<open>close\<close> listener, the same in both listings.\<close>

definition onClose :: "locals \<Rightarrow> int option \<Rightarrow> settled" where
  "onClose st code =
     (if code \<noteq> Some 0
      then Rejected (''Python script exited with code '' @ show_code code @ '': '' @ stdErr st)
      else Resolved (PythonScriptResult (extractedInfo st) (newFilename st)))"

text \<open>
  The promise stays pending (\<open>None\<close>) when no \<open>close\<close> event comes or when a
  listener has thrown.
\<close>

definition settle :: "(locals \<Rightarrow> string \<Rightarrow> locals option) \<Rightarrow> proc_run \<Rightarrow> settled option" where
  "settle on_out run =
     (case listen on_out init_locals (events run) of
        None \<Rightarrow> None
      | Some st \<Rightarrow>
         (case closing run of
            NeverCloses \<Rightarrow> None
          | Close code \<Rightarrow> Some (onClose st code)))"

definition scriptPath :: "string \<Rightarrow> string" where
  "scriptPath cwd = path_join [cwd, ''scripts'', ''document_analyzer.py'']"

definition pythonInterpreter :: "string \<Rightarrow> string" where
  "pythonInterpreter cwd = path_join [cwd, ''scripts'', ''venv'', ''bin'', ''python'']"

text \<open>\<open>runPythonScript\<close> of the first listing (lines 98 to 142).\<close>

definition runPythonScript ::
  "string \<Rightarrow> analyzer \<Rightarrow> string \<Rightarrow> string \<Rightarrow> world \<Rightarrow> settled option \<times> world" where
  "runPythonScript cwd an filePath namingConvention w =
     (let call = \<lparr>command = ''python'',
                   args = [scriptPath cwd, filePath, namingConvention],
                   shell = False\<rparr>;
          run = an call (fs w)
      in (settle onStdout run,
          w\<lparr>fs := fs_after run, spawned := spawned w @ [call]\<rparr>))"

text \<open>
  \<open>runPythonScript\<close> of the second listing (lines 240 to 300): it launches the
  interpreter of the virtual environment and echoes every chunk to the console.
\<close>

fun echo :: "event \<Rightarrow> string \<times> string" where
  "echo (Stdout d) = (''Python stdout:'', d)"
| "echo (Stderr d) = (''Python stderr:'', d)"

definition runPythonScript_venv ::
  "string \<Rightarrow> analyzer \<Rightarrow> string \<Rightarrow> string \<Rightarrow> world \<Rightarrow> settled option \<times> world" where
  "runPythonScript_venv cwd an filePath namingConvention w =
     (let call = \<lparr>command = pythonInterpreter cwd,
                   args = [scriptPath cwd, filePath, namingConvention],
                   shell = False\<rparr>;
          run = an call (fs w)
      in (settle onStdout_venv run,
          w\<lparr>fs := fs_after run, spawned := spawned w @ [call],
            console := console w @ map echo (events run)\<rparr>))"

section \<open>The request handler\<close>

text \<open>
  A value of a parsed form: formidable gives one value or an array of values, and an
  array it gives is never empty.
\<close>

datatype 'a formval = Single 'a | Multi 'a "'a list"

record upfile =
  filepath :: string
  originalFilename :: string

text \<open>
  A request: its method (\<open>req.method\<close>) and what \<open>form.parse\<close> makes of its
  body, the message of an error or the fields and the files by name. The files of a
  parsed form have been written to the upload directory under their \<open>filepath\<close>.
\<close>

record request =
  req_method :: string
  form :: "string + ((string \<times> string formval) list \<times> (string \<times> upfile formval) list)"

datatype jval = JBool bool | JStr string

datatype body = Empty | Json "(string \<times> jval) list"

record response =
  status :: nat
  headers :: "(string \<times> string) list"
  body :: body

fun first :: "'a formval \<Rightarrow> 'a" where
  "first (Single a) = a"
| "first (Multi a as) = a"

fun values_of :: "'a formval \<Rightarrow> 'a list" where
  "values_of (Single a) = [a]"
| "values_of (Multi a as) = a # as"

definition bad_request :: response where
  "bad_request =
     \<lparr>status = 400, headers = [],
      body = Json [(''success'', JBool False),
                   (''message'', JStr ''File and naming convention are required'')]\<rparr>"

definition uploadDir :: string where
  "uploadDir = path_join [''/tmp'', ''document-analyzer'']"

text \<open>\<open>fs.existsSync\<close> then \<open>fs.mkdirSync\<close> with \<open>recursive: true\<close>.\<close>

definition ensure_uploadDir :: "world \<Rightarrow> world" where
  "ensure_uploadDir w =
     (if uploadDir \<in> fs w then w else w\<lparr>fs := fs w \<union> {''/tmp'', uploadDir}\<rparr>)"

definition staged :: "(string \<times> upfile formval) list \<Rightarrow> string list" where
  "staged files = concat (map (\<lambda>(name, v). map filepath (values_of v)) files)"

text \<open>
  \<open>fs.unlinkSync\<close> inside its own \<open>try\<close>: a path that does not exist makes it
  throw, and the error is written to the console.
\<close>

definition unlink_logged :: "string \<Rightarrow> world \<Rightarrow> world" where
  "unlink_logged p w =
     (if p \<in> fs w then w\<lparr>fs := fs w - {p}\<rparr>
      else w\<lparr>console := console w @
             [(''Error deleting temporary file:'',
               ''ENOENT: no such file or directory, unlink '' @ [CHR 0x27] @ p @ [CHR 0x27])]\<rparr>)"

text \<open>The outer \<open>catch\<close> block.\<close>

definition server_error :: "string \<Rightarrow> world \<Rightarrow> response option \<times> world" where
  "server_error msg w =
     (Some \<lparr>status = 500, headers = [],
            body = Json [(''success'', JBool False),
                         (''message'', JStr (''Server error: '' @ msg))]\<rparr>,
      w\<lparr>console := console w @ [(''Error processing document:'', msg)]\<rparr>)"

definition success_response :: "PythonScriptResult \<Rightarrow> response" where
  "success_response result =
     \<lparr>status = 200, headers = [],
      body = Json [(''success'', JBool True),
                   (''extractedInfo'', JStr (res_extractedInfo result)),
                   (''newFilename'', JStr (res_newFilename result)),
                   (''message'', JStr ''Document processed successfully'')]\<rparr>"

text \<open>
  What follows \<open>await runPythonScript(...)\<close>: a rejection goes to the \<open>catch\<close> block,
  a result is followed by the deletion of the file and the response. No response
  (\<open>None\<close>) is sent while the promise is pending.
\<close>

definition respond :: "string \<Rightarrow> settled option \<times> world \<Rightarrow> response option \<times> world" where
  "respond filePath r =
     (case r of
        (None, w3) \<Rightarrow> (None, w3)
      | (Some (Rejected msg), w3) \<Rightarrow> server_error msg w3
      | (Some (Resolved result), w3) \<Rightarrow>
          (Some (success_response result), unlink_logged filePath w3))"

text \<open>The files formidable has written when \<open>form.parse\<close> succeeds.\<close>

definition write_uploads :: "(string \<times> upfile formval) list \<Rightarrow> world \<Rightarrow> world" where
  "write_uploads fls w = w\<lparr>fs := fs w \<union> set (staged fls)\<rparr>"

text \<open>
  The body of the \<open>try\<close> block, the same in both listings but for the
  \<open>runPythonScript\<close> it calls. The test \<open>!file || !namingConvention\<close> holds for
  \<open>undefined\<close> (no entry under the name) and for the empty string; an object and an
  array are truthy.
\<close>

definition process_upload ::
  "(string \<Rightarrow> string \<Rightarrow> world \<Rightarrow> settled option \<times> world) \<Rightarrow> request \<Rightarrow> world
     \<Rightarrow> response option \<times> world" where
  "process_upload run req w =
     (let w1 = ensure_uploadDir w in
      case form req of
        Inl err \<Rightarrow> server_error err w1
      | Inr (flds, fls) \<Rightarrow>
         (let w2 = write_uploads fls w1 in
          case map_of fls ''file'' of
            None \<Rightarrow> (Some bad_request, w2)
          | Some file \<Rightarrow>
             (case map_of flds ''namingConvention'' of
                None \<Rightarrow> (Some bad_request, w2)
              | Some namingConvention \<Rightarrow>
                 if namingConvention = Single []
                 then (Some bad_request, w2)
                 else (let filePath = filepath (first file) in
                       respond filePath (run filePath (first namingConvention) w2)))))"

definition method_not_allowed :: response where
  "method_not_allowed =
     \<lparr>status = 405, headers = [], body = Json [(''message'', JStr ''Method not allowed'')]\<rparr>"

text \<open>\<open>handler\<close> of the first listing (lines 15 to 91).\<close>

definition handler :: "string \<Rightarrow> analyzer \<Rightarrow> request \<Rightarrow> world \<Rightarrow> response option \<times> world" where
  "handler cwd an req w =
     (if req_method req = ''OPTIONS''
      then (Some \<lparr>status = 200,
                   headers = [(''Allow'', ''POST, OPTIONS''),
                              (''Access-Control-Allow-Origin'', ''*''),
                              (''Access-Control-Allow-Methods'', ''POST, OPTIONS''),
                              (''Access-Control-Allow-Headers'', ''Content-Type, Authorization'')],
                   body = Empty\<rparr>, w)
      else if req_method req \<noteq> ''POST''
      then (Some method_not_allowed, w)
      else process_upload (runPythonScript cwd an) req w)"

text \<open>\<open>handler\<close> of the second listing (lines 158 to 231): it has no branch for OPTIONS.\<close>

definition handler_venv :: "string \<Rightarrow> analyzer \<Rightarrow> request \<Rightarrow> world \<Rightarrow> response option \<times> world" where
  "handler_venv cwd an req w =
     (if req_method req \<noteq> ''POST''
      then (Some method_not_allowed, w)
      else process_upload (runPythonScript_venv cwd an) req w)"

section \<open>Requests that reach the analyzer\<close>

text \<open>
  A POST request whose form parses and holds the file \<open>f\<close> and the naming
  convention \<open>n\<close>, not the empty string: it passes the validation.
\<close>

definition complete_upload :: "request \<Rightarrow> upfile formval \<Rightarrow> string formval \<Rightarrow> bool" where
  "complete_upload req f n =
     (req_method req = ''POST'' \<and>
      (case form req of
         Inl err \<Rightarrow> False
       | Inr (flds, fls) \<Rightarrow>
           map_of fls ''file'' = Some f \<and> map_of flds ''namingConvention'' = Some n \<and>
           n \<noteq> Single []))"

text \<open>The world when \<open>runPythonScript\<close> is called for such a request.\<close>

definition staged_world :: "request \<Rightarrow> world \<Rightarrow> world" where
  "staged_world req w =
     (case form req of
        Inl err \<Rightarrow> ensure_uploadDir w
      | Inr (flds, fls) \<Rightarrow> write_uploads fls (ensure_uploadDir w))"

section \<open>Sample requests and analyzers\<close>

text \<open>
  A world with nothing on disk, the world once one upload has been written, a POST
  request that uploads one file under the path \<open>p\<close> with the naming convention
  \<open>n\<close>, and an analyzer that prints one marker, writes to its standard error and
  exits with code 1, leaving the files as they are.
\<close>

definition empty_world :: world where
  "empty_world = \<lparr>fs = {}, spawned = [], console = []\<rparr>"

definition upload_files :: "string set" where
  "upload_files = {''/tmp'', ''/tmp/document-analyzer'', ''/tmp/document-analyzer/up1.pdf''}"

definition upload_world :: world where
  "upload_world = \<lparr>fs = upload_files, spawned = [], console = []\<rparr>"

definition upload_of :: "string \<Rightarrow> string \<Rightarrow> request" where
  "upload_of p n =
     \<lparr>req_method = ''POST'',
      form = Inr ([(''namingConvention'', Multi n [])],
                  [(''file'', Multi \<lparr>filepath = p, originalFilename = ''invoice.pdf''\<rparr> [])])\<rparr>"

definition failing_analyzer :: analyzer where
  "failing_analyzer call files =
     \<lparr>events = [Stdout ''Extracted information: Invoice #123'', Stderr ''Traceback''],
      closing = Close (Some 1), fs_after = files\<rparr>"

text \<open>Runs of the analyzer process used as examples.\<close>

definition failed_run :: proc_run where
  "failed_run =
     \<lparr>events = [Stdout ''Extracted information: Invoice #123'', Stderr ''Trace'',
                Stdout ''Generated new filename: a.pdf'', Stderr ''back''],
      closing = Close (Some 1), fs_after = upload_files\<rparr>"

definition clean_run :: proc_run where
  "clean_run =
     \<lparr>events = [Stdout ''Extracted information: Invoice #123''],
      closing = Close (Some 0), fs_after = upload_files\<rparr>"

definition silent_run :: proc_run where
  "silent_run =
     \<lparr>events = [Stdout ''Processing document'', Stderr ''warning'', Stdout ''Done''],
      closing = Close (Some 0), fs_after = upload_files\<rparr>"

text \<open>The \<open>message\<close> entry of a JSON response.\<close>

definition message_of :: "response \<Rightarrow> string option" where
  "message_of r =
     (case body r of
        Empty \<Rightarrow> None
      | Json kvs \<Rightarrow> (case map_of kvs ''message'' of Some (JStr m) \<Rightarrow> Some m | _ \<Rightarrow> None))"

section \<open>Facts about the string operations\<close>

lemma js_includes_sublist: "js_includes s m = sublist m s"
  by (induction s) (auto simp: sublist_Cons_right)

lemma split_from_nonempty: "split_from sep s \<noteq> []"
  by (induction sep s rule: split_from.induct) (auto split: list.splits)

lemma split_from_length2: "sep \<noteq> [] \<Longrightarrow> js_includes s sep \<Longrightarrow> 2 \<le> length (split_from sep s)"
proof (induction s)
  case Nil
  then show ?case by simp
next
  case (Cons x xs)
  show ?case
  proof (cases "prefix sep (x # xs)")
    case True
    have "1 \<le> length (split_from sep (drop (length sep - 1) xs))"
      using split_from_nonempty [of sep "drop (length sep - 1) xs"]
      by (cases "split_from sep (drop (length sep - 1) xs)") auto
    with True Cons.prems show ?thesis by simp
  next
    case False
    with Cons.prems have "js_includes xs sep" by simp
    with Cons have "2 \<le> length (split_from sep xs)" by simp
    with False show ?thesis by (auto split: list.splits)
  qed
qed

lemma split_from_absent: "\<not> js_includes s sep \<Longrightarrow> split_from sep s = [s]"
  by (induction s) auto

lemma prefix_inside:
  assumes "sep \<noteq> []" "prefix sep ((a # pre) @ sep @ post)"
  shows "prefix sep ((a # pre) @ butlast sep)"
proof -
  have "length sep \<le> length ((a # pre) @ butlast sep)" by simp
  moreover have "prefix ((a # pre) @ butlast sep) ((a # pre) @ sep @ post)"
    using assms(1) by (metis append_butlast_last_id append.assoc prefixI same_prefix_prefix)
  ultimately show ?thesis using assms(2)
    by (metis prefix_length_prefix)
qed

lemma split_from_first:
  assumes "sep \<noteq> []" "\<not> js_includes (pre @ butlast sep) sep"
  shows "split_from sep (pre @ sep @ post) = pre # split_from sep post"
  using assms
proof (induction pre)
  case Nil
  obtain x xs where sx: "sep = x # xs" using Nil(1) by (cases sep) auto
  then show ?case by simp
next
  case (Cons a pre)
  have np: "\<not> prefix sep ((a # pre) @ sep @ post)"
    using prefix_inside [OF Cons.prems(1)] Cons.prems(2) by auto
  have "\<not> js_includes (pre @ butlast sep) sep" using Cons.prems(2) by simp
  with Cons have "split_from sep (pre @ sep @ post) = pre # split_from sep post" by simp
  with np show ?case by simp
qed

section \<open>Facts about the listeners\<close>

lemma markers_nonempty: "EXTRACTED \<noteq> []" "GENERATED \<noteq> []" "RENAMED \<noteq> []"
  by (simp_all add: EXTRACTED_def GENERATED_def RENAMED_def)

lemma js_at_split_1:
  "sep \<noteq> [] \<Longrightarrow> js_includes s sep \<Longrightarrow>
     js_at (js_split s sep) (Suc 0) = Some (js_split s sep ! Suc 0)"
  using split_from_length2 [of sep s] by (simp add: js_at_def js_split_def)

lemma js_at_split_0: "sep \<noteq> [] \<Longrightarrow> js_at (js_split s sep) 0 = Some (hd (js_split s sep))"
  using split_from_nonempty [of sep s] by (simp add: js_at_def js_split_def hd_conv_nth)

lemma onExtracted_eq:
  "onExtracted c st =
     Some (if js_includes c EXTRACTED
           then st\<lparr>extractedInfo := js_trim (hd (js_split (js_split c EXTRACTED ! 1) GENERATED))\<rparr>
           else st)"
  by (simp add: onExtracted_def js_at_split_1 js_at_split_0 markers_nonempty)

lemma onGenerated_eq:
  "onGenerated c st =
     Some (if js_includes c GENERATED
           then st\<lparr>newFilename := js_trim (hd (js_split (js_split c GENERATED ! 1) RENAMED))\<rparr>
           else st)"
  by (simp add: onGenerated_def js_at_split_1 js_at_split_0 markers_nonempty)

lemma onRenamed_eq:
  "onRenamed c st =
     Some (if js_includes c RENAMED
           then st\<lparr>newFilename := js_trim (js_split c RENAMED ! 1)\<rparr>
           else st)"
  by (simp add: onRenamed_def js_at_split_1 markers_nonempty)

lemma onExtracted_venv_eq:
  "onExtracted_venv c st =
     Some (if js_includes c EXTRACTED \<and> js_split c EXTRACTED ! 1 \<noteq> []
           then st\<lparr>extractedInfo := js_trim (hd (js_split (js_split c EXTRACTED ! 1) GENERATED))\<rparr>
           else st)"
  by (simp add: onExtracted_venv_def js_at_split_1 js_at_split_0 markers_nonempty)

lemma onGenerated_venv_eq:
  "onGenerated_venv c st =
     Some (if js_includes c GENERATED \<and> js_split c GENERATED ! 1 \<noteq> []
           then st\<lparr>newFilename :=
                     js_trim (if js_includes (js_split c GENERATED ! 1) RENAMED
                              then js_split (js_split c GENERATED ! 1) RENAMED ! 1
                              else hd (js_split (js_split c GENERATED ! 1) RENAMED))\<rparr>
           else st)"
  by (simp add: onGenerated_venv_def js_at_split_1 js_at_split_0 markers_nonempty)

lemma onStdout_no_marker: "\<not> has_marker c \<Longrightarrow> onStdout st c = Some st"
  by (simp add: has_marker_def onStdout_def onExtracted_eq onGenerated_eq onRenamed_eq)

lemma onStdout_venv_no_marker: "\<not> has_marker c \<Longrightarrow> onStdout_venv st c = Some st"
  by (simp add: has_marker_def onStdout_venv_def onExtracted_venv_eq onGenerated_venv_eq onRenamed_eq)

lemma onStdout_stdErr: "\<exists>st'. onStdout st c = Some st' \<and> stdErr st' = stdErr st"
  by (simp add: onStdout_def onExtracted_eq onGenerated_eq onRenamed_eq)

lemma onStdout_venv_stdErr: "\<exists>st'. onStdout_venv st c = Some st' \<and> stdErr st' = stdErr st"
  by (simp add: onStdout_venv_def onExtracted_venv_eq onGenerated_venv_eq onRenamed_eq)

lemma listen_stdErr:
  assumes "\<And>st c. \<exists>st'. on_out st c = Some st' \<and> stdErr st' = stdErr st"
  shows "\<exists>st'. listen on_out st es = Some st' \<and> stdErr st' = stdErr st @ stderr_text es"
proof (induction es arbitrary: st)
  case Nil
  show ?case by simp
next
  case (Cons e es)
  show ?case
  proof (cases e)
    case (Stdout d)
    obtain s1 where s1: "on_out st d = Some s1" "stdErr s1 = stdErr st" using assms by blast
    from Cons [of s1] s1 Stdout show ?thesis by simp
  next
    case (Stderr d)
    from Cons [of "onStderr st d"] Stderr show ?thesis by (simp add: onStderr_def)
  qed
qed

lemma listen_no_marker:
  assumes "\<And>st c. \<not> has_marker c \<Longrightarrow> on_out st c = Some st"
    and "\<forall>d. Stdout d \<in> set es \<longrightarrow> \<not> has_marker d"
  shows "\<exists>st'. listen on_out st es = Some st' \<and> extractedInfo st' = extractedInfo st
            \<and> newFilename st' = newFilename st"
  using assms(2)
proof (induction es arbitrary: st)
  case Nil
  show ?case by simp
next
  case (Cons e es)
  show ?case
  proof (cases e)
    case (Stdout d)
    with Cons.prems have "on_out st d = Some st" using assms(1) by simp
    with Cons.IH [of st] Cons.prems Stdout show ?thesis by simp
  next
    case (Stderr d)
    from Cons.IH [of "onStderr st d"] Cons.prems Stderr show ?thesis by (simp add: onStderr_def)
  qed
qed

section \<open>The handler and the exit code\<close>

lemma handler_complete:
  "complete_upload req f n \<Longrightarrow>
   handler cwd an req w =
     respond (filepath (first f))
       (runPythonScript cwd an (filepath (first f)) (first n) (staged_world req w))"
  by (auto simp: complete_upload_def handler_def process_upload_def staged_world_def Let_def
           split: sum.splits)

lemma handler_venv_complete:
  "complete_upload req f n \<Longrightarrow>
   handler_venv cwd an req w =
     respond (filepath (first f))
       (runPythonScript_venv cwd an (filepath (first f)) (first n) (staged_world req w))"
  by (auto simp: complete_upload_def handler_venv_def process_upload_def staged_world_def Let_def
           split: sum.splits)

lemma settle_closed:
  assumes "\<And>st c. \<exists>st'. on_out st c = Some st' \<and> stdErr st' = stdErr st"
    and "closing run = Close code"
  shows "\<exists>st. listen on_out init_locals (events run) = Some st
            \<and> stdErr st = stderr_text (events run)
            \<and> settle on_out run = Some (onClose st code)"
proof -
  obtain st where st: "listen on_out init_locals (events run) = Some st"
      "stdErr st = stdErr init_locals @ stderr_text (events run)"
    using listen_stdErr [of on_out init_locals "events run", OF assms(1)] by blast
  then show ?thesis using assms(2) by (simp add: settle_def init_locals_def)
qed

lemma settle_nonzero:
  assumes "\<And>st c. \<exists>st'. on_out st c = Some st' \<and> stdErr st' = stdErr st"
    and "closing run = Close code" and "code \<noteq> Some 0"
  shows "settle on_out run =
           Some (Rejected (''Python script exited with code '' @ show_code code @ '': ''
                           @ stderr_text (events run)))"
  using settle_closed [of on_out run code, OF assms(1) assms(2)] assms(3)
  by (auto simp: onClose_def)

lemma settle_resolved:
  assumes "settle on_out run = Some (Resolved r)" and "closing run = Close code"
  shows "code = Some 0"
  using assms by (auto simp: settle_def onClose_def split: option.splits if_splits)

lemma fst_runPythonScript: "fst (runPythonScript cwd (behaves run) fp nc w) = settle onStdout run"
  by (simp add: runPythonScript_def behaves_def Let_def)

lemma fst_runPythonScript_venv:
  "fst (runPythonScript_venv cwd (behaves run) fp nc w) = settle onStdout_venv run"
  by (simp add: runPythonScript_venv_def behaves_def Let_def)

lemma fst_respond_rejected:
  "fst r = Some (Rejected msg) \<Longrightarrow>
   fst (respond p r) = Some \<lparr>status = 500, headers = [],
            body = Json [(''success'', JBool False),
                         (''message'', JStr (''Server error: '' @ msg))]\<rparr>"
  by (cases r) (simp add: respond_def server_error_def)

text \<open>
  Claim C4. A run that closes with an exit code other than 0 (also \<open>null\<close>) rejects
  the promise, whatever markers its output held, with the message made of the exit code
  and all the text written to the standard error; for a request that has passed the
  validation the handler then answers 500 with \<open>success: false\<close> and that message.
  A promise resolved with a result comes from exit code 0 only.
\<close>

theorem C4_nonzero_exit_is_failure:
  assumes "closing run = Close code"
  shows "(code \<noteq> Some 0 \<longrightarrow>
            fst (runPythonScript cwd (behaves run) filePath nc w)
              = Some (Rejected (''Python script exited with code '' @ show_code code @ '': ''
                                @ stderr_text (events run)))
          \<and> fst (runPythonScript_venv cwd (behaves run) filePath nc w)
              = Some (Rejected (''Python script exited with code '' @ show_code code @ '': ''
                                @ stderr_text (events run)))
          \<and> (complete_upload req f n \<longrightarrow>
               fst (handler cwd (behaves run) req w)
                 = Some \<lparr>status = 500, headers = [],
                         body = Json [(''success'', JBool False),
                                      (''message'', JStr (''Server error: Python script exited with code ''
                                          @ show_code code @ '': '' @ stderr_text (events run)))]\<rparr>
             \<and> fst (handler_venv cwd (behaves run) req w)
                 = Some \<lparr>status = 500, headers = [],
                         body = Json [(''success'', JBool False),
                                      (''message'', JStr (''Server error: Python script exited with code ''
                                          @ show_code code @ '': '' @ stderr_text (events run)))]\<rparr>))
       \<and> ((\<exists>r. fst (runPythonScript cwd (behaves run) filePath nc w) = Some (Resolved r)
              \<or> fst (runPythonScript_venv cwd (behaves run) filePath nc w) = Some (Resolved r))
            \<longrightarrow> code = Some 0)"
proof -
  have nz: "fst (runPythonScript cwd (behaves run) p c v)
              = Some (Rejected (''Python script exited with code '' @ show_code code @ '': ''
                                @ stderr_text (events run)))"
    if "code \<noteq> Some 0" for p c v
    using settle_nonzero [of onStdout run code, OF onStdout_stdErr assms that]
    by (simp add: fst_runPythonScript)
  have nzv: "fst (runPythonScript_venv cwd (behaves run) p c v)
              = Some (Rejected (''Python script exited with code '' @ show_code code @ '': ''
                                @ stderr_text (events run)))"
    if "code \<noteq> Some 0" for p c v
    using settle_nonzero [of onStdout_venv run code, OF onStdout_venv_stdErr assms that]
    by (simp add: fst_runPythonScript_venv)
  have h: "fst (handler cwd (behaves run) req w)
                 = Some \<lparr>status = 500, headers = [],
                         body = Json [(''success'', JBool False),
                                      (''message'', JStr (''Server error: Python script exited with code ''
                                          @ show_code code @ '': '' @ stderr_text (events run)))]\<rparr>"
    if "code \<noteq> Some 0" "complete_upload req f n"
    using fst_respond_rejected [OF nz [OF that(1)]] handler_complete [OF that(2)] by simp
  have hv: "fst (handler_venv cwd (behaves run) req w)
                 = Some \<lparr>status = 500, headers = [],
                         body = Json [(''success'', JBool False),
                                      (''message'', JStr (''Server error: Python script exited with code ''
                                          @ show_code code @ '': '' @ stderr_text (events run)))]\<rparr>"
    if "code \<noteq> Some 0" "complete_upload req f n"
    using fst_respond_rejected [OF nzv [OF that(1)]] handler_venv_complete [OF that(2)] by simp
  have r: "code = Some 0"
    if "\<exists>r. fst (runPythonScript cwd (behaves run) filePath nc w) = Some (Resolved r)
              \<or> fst (runPythonScript_venv cwd (behaves run) filePath nc w) = Some (Resolved r)"
    using that settle_resolved [OF _ assms]
    by (auto simp: fst_runPythonScript fst_runPythonScript_venv)
  show ?thesis using nz nzv h hv r by blast
qed

lemma chunk_in_stream:
  "Stdout d \<in> set es \<Longrightarrow> js_includes d m \<Longrightarrow> js_includes (stdout_text es) m"
proof (induction es rule: stdout_text.induct)
  case 1
  then show ?case by simp
next
  case (2 c es)
  show ?case
  proof (cases "d = c")
    case True
    with 2 show ?thesis by (auto simp: js_includes_sublist sublist_append)
  next
    case False
    with 2 show ?thesis by (auto simp: js_includes_sublist sublist_append)
  qed
next
  case (3 c es)
  then show ?case by simp
qed

lemma no_marker_in_stream:
  "\<not> has_marker (stdout_text es) \<Longrightarrow> Stdout d \<in> set es \<Longrightarrow> \<not> has_marker d"
  using chunk_in_stream [of d es] by (auto simp: has_marker_def)

lemma settle_no_marker:
  assumes "\<And>st c. \<not> has_marker c \<Longrightarrow> on_out st c = Some st"
    and "\<forall>d. Stdout d \<in> set (events run) \<longrightarrow> \<not> has_marker d"
    and "closing run = Close (Some 0)"
  shows "settle on_out run = Some (Resolved (PythonScriptResult [] []))"
proof -
  obtain st where "listen on_out init_locals (events run) = Some st"
      "extractedInfo st = extractedInfo init_locals" "newFilename st = newFilename init_locals"
    using listen_no_marker [of on_out "events run" init_locals, OF assms(1) assms(2)] by blast
  then show ?thesis using assms(3) by (simp add: settle_def onClose_def init_locals_def)
qed

lemma fst_respond_resolved:
  "fst r = Some (Resolved res) \<Longrightarrow> fst (respond p r) = Some (success_response res)"
  by (cases r) (simp add: respond_def)

text \<open>
  Claim C6. A run that closes with exit code 0 and whose output held no marker, in the
  whole stream or, more generally, in no chunk, resolves with both fields empty, and
  the handler answers 200 with \<open>success: true\<close> and the two empty strings.
\<close>

theorem C6_no_marker_is_empty_success:
  assumes "closing run = Close (Some 0)"
    and "\<not> has_marker (stdout_text (events run))
         \<or> (\<forall>d. Stdout d \<in> set (events run) \<longrightarrow> \<not> has_marker d)"
  shows "fst (runPythonScript cwd (behaves run) filePath nc w)
           = Some (Resolved (PythonScriptResult [] []))
       \<and> fst (runPythonScript_venv cwd (behaves run) filePath nc w)
           = Some (Resolved (PythonScriptResult [] []))
       \<and> (complete_upload req f n \<longrightarrow>
            fst (handler cwd (behaves run) req w)
              = Some \<lparr>status = 200, headers = [],
                      body = Json [(''success'', JBool True),
                                   (''extractedInfo'', JStr []),
                                   (''newFilename'', JStr []),
                                   (''message'', JStr ''Document processed successfully'')]\<rparr>
          \<and> fst (handler_venv cwd (behaves run) req w)
              = Some \<lparr>status = 200, headers = [],
                      body = Json [(''success'', JBool True),
                                   (''extractedInfo'', JStr []),
                                   (''newFilename'', JStr []),
                                   (''message'', JStr ''Document processed successfully'')]\<rparr>)"
proof -
  have chunks: "\<forall>d. Stdout d \<in> set (events run) \<longrightarrow> \<not> has_marker d"
    using assms(2) no_marker_in_stream by blast
  have a: "fst (runPythonScript cwd (behaves run) p c v)
             = Some (Resolved (PythonScriptResult [] []))" for p c v
    using settle_no_marker [of onStdout run, OF onStdout_no_marker chunks assms(1)]
    by (simp add: fst_runPythonScript)
  have b: "fst (runPythonScript_venv cwd (behaves run) p c v)
             = Some (Resolved (PythonScriptResult [] []))" for p c v
    using settle_no_marker [of onStdout_venv run, OF onStdout_venv_no_marker chunks assms(1)]
    by (simp add: fst_runPythonScript_venv)
  have h: "fst (handler cwd (behaves run) req w) = Some (success_response (PythonScriptResult [] []))"
    if "complete_upload req f n"
    using fst_respond_resolved [OF a] handler_complete [OF that] by simp
  have hv: "fst (handler_venv cwd (behaves run) req w) = Some (success_response (PythonScriptResult [] []))"
    if "complete_upload req f n"
    using fst_respond_resolved [OF b] handler_venv_complete [OF that] by simp
  show ?thesis using a b h hv by (simp add: success_response_def)
qed

text \<open>
  Claim C9. A request whose method is neither POST nor OPTIONS gets the response 405
  with the body \<open>{message: 'Method not allowed'}\<close>, which has no \<open>success\<close> entry,
  and the world is left as it was: nothing parsed, staged or launched.
\<close>

theorem C9_other_methods_rejected:
  assumes "req_method req \<noteq> ''POST''" and "req_method req \<noteq> ''OPTIONS''"
  shows "handler cwd an req w
           = (Some \<lparr>status = 405, headers = [],
                    body = Json [(''message'', JStr ''Method not allowed'')]\<rparr>, w)
       \<and> handler_venv cwd an req w
           = (Some \<lparr>status = 405, headers = [],
                    body = Json [(''message'', JStr ''Method not allowed'')]\<rparr>, w)"
  using assms by (simp add: handler_def handler_venv_def method_not_allowed_def)

text \<open>
  Claim C8, as amended. The first listing answers every OPTIONS request with status
  200, an empty body and the headers that advertise POST and OPTIONS; the second
  listing has no such branch and answers it with 405 \<open>Method not allowed\<close>. Neither
  changes the world: nothing is staged, launched or deleted.
\<close>

theorem C8_preflight_by_listing:
  assumes "req_method req = ''OPTIONS''"
  shows "handler cwd an req w
           = (Some \<lparr>status = 200,
                    headers = [(''Allow'', ''POST, OPTIONS''),
                               (''Access-Control-Allow-Origin'', ''*''),
                               (''Access-Control-Allow-Methods'', ''POST, OPTIONS''),
                               (''Access-Control-Allow-Headers'', ''Content-Type, Authorization'')],
                    body = Empty\<rparr>, w)
       \<and> handler_venv cwd an req w
           = (Some \<lparr>status = 405, headers = [],
                    body = Json [(''message'', JStr ''Method not allowed'')]\<rparr>, w)"
  using assms by (simp add: handler_def handler_venv_def method_not_allowed_def)

text \<open>
  Claim C5, as amended. A POST request whose parsed form lacks the file or lacks the
  \<open>namingConvention\<close> field is answered with status 400, \<open>success: false\<close> and the
  message \<open>File and naming convention are required\<close> (capital F), and no process is
  launched for it.
\<close>

theorem C5_missing_part_is_bad_request:
  assumes "req_method req = ''POST''" and "form req = Inr (flds, fls)"
    and "map_of fls ''file'' = None \<or> map_of flds ''namingConvention'' = None"
  shows "fst (handler cwd an req w)
           = Some \<lparr>status = 400, headers = [],
                   body = Json [(''success'', JBool False),
                                (''message'', JStr ''File and naming convention are required'')]\<rparr>
       \<and> spawned (snd (handler cwd an req w)) = spawned w
       \<and> fst (handler_venv cwd an req w)
           = Some \<lparr>status = 400, headers = [],
                   body = Json [(''success'', JBool False),
                                (''message'', JStr ''File and naming convention are required'')]\<rparr>
       \<and> spawned (snd (handler_venv cwd an req w)) = spawned w"
  using assms
  by (auto simp: handler_def handler_venv_def process_upload_def bad_request_def Let_def
        write_uploads_def ensure_uploadDir_def split: option.splits)

lemma spawned_respond: "spawned (snd (respond p r)) = spawned (snd r)"
  by (cases r)
     (auto simp: respond_def server_error_def unlink_logged_def split: option.splits settled.splits)

lemma spawned_staged_world: "spawned (staged_world req w) = spawned w"
  by (auto simp: staged_world_def write_uploads_def ensure_uploadDir_def split: sum.splits)

lemma spawned_runPythonScript:
  "spawned (snd (runPythonScript cwd an p c v))
     = spawned v @ [\<lparr>command = ''python'', args = [scriptPath cwd, p, c], shell = False\<rparr>]"
  by (simp add: runPythonScript_def Let_def)

lemma spawned_runPythonScript_venv:
  "spawned (snd (runPythonScript_venv cwd an p c v))
     = spawned v @ [\<lparr>command = pythonInterpreter cwd, args = [scriptPath cwd, p, c],
                     shell = False\<rparr>]"
  by (simp add: runPythonScript_venv_def Let_def)

text \<open>
  Claim C7. For a request that has passed the validation the handler makes exactly one
  \<open>spawn\<close> call, without a shell, whose argument vector is the script path followed by
  the path of the staged file and the naming convention, each one token, unchanged,
  whatever characters they hold.
\<close>

theorem C7_arguments_are_discrete_tokens:
  assumes "complete_upload req f n"
  shows "spawned (snd (handler cwd an req w))
           = spawned w @ [\<lparr>command = ''python'',
                           args = [scriptPath cwd, filepath (first f), first n],
                           shell = False\<rparr>]
       \<and> spawned (snd (handler_venv cwd an req w))
           = spawned w @ [\<lparr>command = pythonInterpreter cwd,
                           args = [scriptPath cwd, filepath (first f), first n],
                           shell = False\<rparr>]"
  using assms
  by (simp add: handler_complete handler_venv_complete spawned_respond spawned_staged_world
        spawned_runPythonScript spawned_runPythonScript_venv)

text \<open>A file path and a naming convention full of shell metacharacters.\<close>

theorem C7_witness:
  "complete_upload (upload_of ''/tmp/document-analyzer/a b;c.pdf'' ''$(rm -rf /); `id` | tee x'')
     (Multi \<lparr>filepath = ''/tmp/document-analyzer/a b;c.pdf'', originalFilename = ''invoice.pdf''\<rparr> [])
     (Multi ''$(rm -rf /); `id` | tee x'' [])
   \<and> spawned (snd (handler ''/app'' failing_analyzer
         (upload_of ''/tmp/document-analyzer/a b;c.pdf'' ''$(rm -rf /); `id` | tee x'') empty_world))
       = [\<lparr>command = ''python'',
           args = [''/app/scripts/document_analyzer.py'', ''/tmp/document-analyzer/a b;c.pdf'',
                   ''$(rm -rf /); `id` | tee x''],
           shell = False\<rparr>]
   \<and> spawned (snd (handler_venv ''/app'' failing_analyzer
         (upload_of ''/tmp/document-analyzer/a b;c.pdf'' ''$(rm -rf /); `id` | tee x'') empty_world))
       = [\<lparr>command = ''/app/scripts/venv/bin/python'',
           args = [''/app/scripts/document_analyzer.py'', ''/tmp/document-analyzer/a b;c.pdf'',
                   ''$(rm -rf /); `id` | tee x''],
           shell = False\<rparr>]"
proof -
  have c: "complete_upload (upload_of ''/tmp/document-analyzer/a b;c.pdf'' ''$(rm -rf /); `id` | tee x'')
     (Multi \<lparr>filepath = ''/tmp/document-analyzer/a b;c.pdf'', originalFilename = ''invoice.pdf''\<rparr> [])
     (Multi ''$(rm -rf /); `id` | tee x'' [])"
    by (simp add: complete_upload_def upload_of_def)
  show ?thesis
    using c C7_arguments_are_discrete_tokens [OF c, of "''/app''" failing_analyzer empty_world]
    by (simp add: empty_world_def scriptPath_def pythonInterpreter_def)
qed

text \<open>
  On the success path the file is gone once the response is made, whether
  \<open>unlinkSync\<close> deleted it or found it missing and logged the error.
\<close>

lemma resolved_file_deleted:
  "fst r = Some (Resolved res) \<Longrightarrow>
   fst (respond p r) = Some (success_response res) \<and> p \<notin> fs (snd (respond p r))"
  by (cases r) (simp add: respond_def unlink_logged_def)

text \<open>
  Claim C2, evaluated where it fails. The analyzer exits with code 1: the handler answers
  500 and the staged file is still on disk, since the \<open>unlinkSync\<close> call sits after the
  \<open>await\<close>, inside the \<open>try\<close>, and the \<open>catch\<close> block deletes nothing. The same
  holds for a request with a file and no naming convention, answered with 400 after
  the file has been written.
\<close>

theorem C2_staged_file_left_after_failure:
  "fst (handler ''/app'' failing_analyzer
          (upload_of ''/tmp/document-analyzer/up1.pdf'' ''date_vendor'') empty_world)
     = Some \<lparr>status = 500, headers = [],
             body = Json [(''success'', JBool False),
                          (''message'', JStr ''Server error: Python script exited with code 1: Traceback'')]\<rparr>
   \<and> ''/tmp/document-analyzer/up1.pdf''
       \<in> fs (snd (handler ''/app'' failing_analyzer
                     (upload_of ''/tmp/document-analyzer/up1.pdf'' ''date_vendor'') empty_world))
   \<and> map_option status
         (fst (handler ''/app'' failing_analyzer
                 \<lparr>req_method = ''POST'',
                  form = Inr ([], [(''file'', Single \<lparr>filepath = ''/tmp/document-analyzer/up1.pdf'',
                                                     originalFilename = ''invoice.pdf''\<rparr>)])\<rparr>
                 empty_world)) = Some 400
   \<and> ''/tmp/document-analyzer/up1.pdf''
       \<in> fs (snd (handler ''/app'' failing_analyzer
                 \<lparr>req_method = ''POST'',
                  form = Inr ([], [(''file'', Single \<lparr>filepath = ''/tmp/document-analyzer/up1.pdf'',
                                                     originalFilename = ''invoice.pdf''\<rparr>)])\<rparr>
                 empty_world))"
  by (simp add: handler_def process_upload_def upload_of_def empty_world_def failing_analyzer_def
       Let_def ensure_uploadDir_def write_uploads_def staged_def uploadDir_def respond_def
       runPythonScript_def settle_def onStdout_def onExtracted_eq onGenerated_eq onRenamed_eq
       onStderr_def onClose_def show_code_def show_int_def server_error_def bad_request_def
       EXTRACTED_def GENERATED_def RENAMED_def init_locals_def)

section \<open>Which chunk decides a field\<close>

lemma includes_middle: "js_includes (pre @ sep @ post) sep"
  by (simp add: js_includes_sublist)

lemma includes_post: "js_includes post m \<Longrightarrow> js_includes (pre @ sep @ post) m"
  by (auto simp: js_includes_sublist sublist_append)

lemma split_second:
  assumes "sep \<noteq> []" "\<not> js_includes (pre @ butlast sep) sep" "\<not> js_includes post sep"
  shows "js_split (pre @ sep @ post) sep ! Suc 0 = post"
  using split_from_first [OF assms(1) assms(2), of post] split_from_absent [OF assms(3)] assms(1)
  by (simp add: js_split_def)

lemma split_head_absent: "sep \<noteq> [] \<Longrightarrow> \<not> js_includes s sep \<Longrightarrow> hd (js_split s sep) = s"
  by (simp add: js_split_def split_from_absent)

lemma onStdout_renamed:
  assumes "\<not> js_includes (pre @ butlast RENAMED) RENAMED" "\<not> js_includes post RENAMED"
  shows "\<exists>st'. onStdout st (pre @ RENAMED @ post) = Some st' \<and> newFilename st' = js_trim post"
  using split_second [OF markers_nonempty(3) assms]
  by (simp add: onStdout_def onExtracted_eq onGenerated_eq onRenamed_eq includes_middle)

lemma onStdout_venv_renamed:
  assumes "\<not> js_includes (pre @ butlast RENAMED) RENAMED" "\<not> js_includes post RENAMED"
  shows "\<exists>st'. onStdout_venv st (pre @ RENAMED @ post) = Some st' \<and> newFilename st' = js_trim post"
  using split_second [OF markers_nonempty(3) assms]
  by (simp add: onStdout_venv_def onExtracted_venv_eq onGenerated_venv_eq onRenamed_eq includes_middle)

lemma onStdout_generated:
  assumes "\<not> js_includes (pre @ butlast GENERATED) GENERATED" "\<not> js_includes post GENERATED"
    "\<not> js_includes (pre @ GENERATED @ post) RENAMED"
  shows "\<exists>st'. onStdout st (pre @ GENERATED @ post) = Some st' \<and> newFilename st' = js_trim post"
proof -
  have "\<not> js_includes post RENAMED" using assms(3) includes_post by blast
  then have "hd (js_split post RENAMED) = post"
    by (simp add: split_head_absent markers_nonempty)
  then show ?thesis
    using split_second [OF markers_nonempty(2) assms(1) assms(2)] assms(3)
    by (simp add: onStdout_def onExtracted_eq onGenerated_eq onRenamed_eq includes_middle)
qed

lemma listen_append:
  "listen f st (es0 @ es1) = (case listen f st es0 of None \<Rightarrow> None | Some s \<Rightarrow> listen f s es1)"
  by (induction es0 arbitrary: st) (auto split: option.splits)

lemma onStdout_extractedInfo:
  "\<exists>s. onStdout st c = Some s \<and>
       extractedInfo s = (if js_includes c EXTRACTED
                          then js_trim (hd (js_split (js_split c EXTRACTED ! 1) GENERATED))
                          else extractedInfo st)"
  by (simp add: onStdout_def onExtracted_eq onGenerated_eq onRenamed_eq)

lemma onStdout_newFilename:
  "\<exists>s. onStdout st c = Some s \<and>
       newFilename s = (if js_includes c RENAMED then js_trim (js_split c RENAMED ! 1)
                        else if js_includes c GENERATED
                        then js_trim (hd (js_split (js_split c GENERATED ! 1) RENAMED))
                        else newFilename st)"
  by (simp add: onStdout_def onExtracted_eq onGenerated_eq onRenamed_eq)

lemma listen_extractedInfo_kept:
  assumes "\<forall>d. Stdout d \<in> set es \<longrightarrow> \<not> js_includes d EXTRACTED"
  shows "\<exists>s. listen onStdout st es = Some s \<and> extractedInfo s = extractedInfo st"
  using assms
proof (induction es arbitrary: st)
  case Nil
  show ?case by simp
next
  case (Cons e es)
  show ?case
  proof (cases e)
    case (Stdout d)
    obtain s1 where "onStdout st d = Some s1" "extractedInfo s1 = extractedInfo st"
      using onStdout_extractedInfo [of st d] Cons.prems Stdout by auto
    with Cons.IH [of s1] Cons.prems Stdout show ?thesis by simp
  next
    case (Stderr d)
    from Cons.IH [of "onStderr st d"] Cons.prems Stderr show ?thesis by (simp add: onStderr_def)
  qed
qed

lemma listen_newFilename_kept:
  assumes "\<forall>d. Stdout d \<in> set es \<longrightarrow> \<not> js_includes d GENERATED \<and> \<not> js_includes d RENAMED"
  shows "\<exists>s. listen onStdout st es = Some s \<and> newFilename s = newFilename st"
  using assms
proof (induction es arbitrary: st)
  case Nil
  show ?case by simp
next
  case (Cons e es)
  show ?case
  proof (cases e)
    case (Stdout d)
    obtain s1 where "onStdout st d = Some s1" "newFilename s1 = newFilename st"
      using onStdout_newFilename [of st d] Cons.prems Stdout by auto
    with Cons.IH [of s1] Cons.prems Stdout show ?thesis by simp
  next
    case (Stderr d)
    from Cons.IH [of "onStderr st d"] Cons.prems Stderr show ?thesis by (simp add: onStderr_def)
  qed
qed

lemma listen_total: "\<exists>s. listen onStdout st es = Some s"
  using listen_stdErr [of onStdout st es, OF onStdout_stdErr] by blast

text \<open>
  Claim C10. In the first listing every chunk that holds a marker assigns the variable,
  so the last such chunk decides: the final \<open>extractedInfo\<close> is what the last chunk
  with the extracted marker gives on its own, whatever the chunks before it had set, and
  likewise \<open>newFilename\<close> for the last chunk with one of the two filename markers.
  In particular a chunk with the generated marker and no rename marker sets
  \<open>newFilename\<close> to the trimmed text after the marker, also when the old value came
  from a rename marker of an earlier chunk.
\<close>

theorem C10_last_chunk_wins:
  "(js_includes c EXTRACTED \<and> (\<forall>d. Stdout d \<in> set after \<longrightarrow> \<not> js_includes d EXTRACTED) \<longrightarrow>
      (\<exists>s1 s2. onStdout init c = Some s1 \<and> listen onStdout st (before @ Stdout c # after) = Some s2
               \<and> extractedInfo s2 = extractedInfo s1))
   \<and> ((js_includes c GENERATED \<or> js_includes c RENAMED)
        \<and> (\<forall>d. Stdout d \<in> set after \<longrightarrow> \<not> js_includes d GENERATED \<and> \<not> js_includes d RENAMED) \<longrightarrow>
      (\<exists>s1 s2. onStdout init c = Some s1 \<and> listen onStdout st (before @ Stdout c # after) = Some s2
               \<and> newFilename s2 = newFilename s1))
   \<and> (\<not> js_includes (pre @ butlast GENERATED) GENERATED \<and> \<not> js_includes post GENERATED
        \<and> \<not> js_includes (pre @ GENERATED @ post) RENAMED \<longrightarrow>
      (\<exists>s1. onStdout st (pre @ GENERATED @ post) = Some s1 \<and> newFilename s1 = js_trim post))"
proof -
  obtain m where m: "listen onStdout st before = Some m" using listen_total by blast
  obtain s1 where s1: "onStdout init c = Some s1"
      "extractedInfo s1 = (if js_includes c EXTRACTED
                          then js_trim (hd (js_split (js_split c EXTRACTED ! 1) GENERATED))
                          else extractedInfo init)"
    using onStdout_extractedInfo [of init c] by blast
  obtain t1 where t1: "onStdout init c = Some t1"
      "newFilename t1 = (if js_includes c RENAMED then js_trim (js_split c RENAMED ! 1)
                        else if js_includes c GENERATED
                        then js_trim (hd (js_split (js_split c GENERATED ! 1) RENAMED))
                        else newFilename init)"
    using onStdout_newFilename [of init c] by blast
  obtain m1 where m1: "onStdout m c = Some m1"
      "extractedInfo m1 = (if js_includes c EXTRACTED
                          then js_trim (hd (js_split (js_split c EXTRACTED ! 1) GENERATED))
                          else extractedInfo m)"
    using onStdout_extractedInfo [of m c] by blast
  have m1n: "newFilename m1 = (if js_includes c RENAMED then js_trim (js_split c RENAMED ! 1)
                        else if js_includes c GENERATED
                        then js_trim (hd (js_split (js_split c GENERATED ! 1) RENAMED))
                        else newFilename m)"
    using onStdout_newFilename [of m c] m1(1) by auto
  have whole: "listen onStdout st (before @ Stdout c # after) = listen onStdout m1 after"
    using m m1(1) by (simp add: listen_append)
  have a: "\<exists>s1 s2. onStdout init c = Some s1 \<and> listen onStdout st (before @ Stdout c # after) = Some s2
               \<and> extractedInfo s2 = extractedInfo s1"
    if inc: "js_includes c EXTRACTED"
      and later: "\<forall>d. Stdout d \<in> set after \<longrightarrow> \<not> js_includes d EXTRACTED"
  proof -
    obtain s2 where "listen onStdout m1 after = Some s2" "extractedInfo s2 = extractedInfo m1"
      using listen_extractedInfo_kept [OF later, of m1] by blast
    then show ?thesis using s1 m1 whole inc by simp
  qed
  have b: "\<exists>s1 s2. onStdout init c = Some s1 \<and> listen onStdout st (before @ Stdout c # after) = Some s2
               \<and> newFilename s2 = newFilename s1"
    if inc: "js_includes c GENERATED \<or> js_includes c RENAMED"
      and later: "\<forall>d. Stdout d \<in> set after \<longrightarrow> \<not> js_includes d GENERATED \<and> \<not> js_includes d RENAMED"
  proof -
    obtain s2 where "listen onStdout m1 after = Some s2" "newFilename s2 = newFilename m1"
      using listen_newFilename_kept [OF later, of m1] by blast
    then show ?thesis using t1 m1n whole inc by auto
  qed
  show ?thesis using a b onStdout_generated by blast
qed

section \<open>Chunks, markers and the examples\<close>

lemmas eval_parser =
  onStdout_def onStdout_venv_def onExtracted_eq onGenerated_eq onRenamed_eq
  onExtracted_venv_eq onGenerated_venv_eq EXTRACTED_def GENERATED_def RENAMED_def
  js_split_def js_trim_def is_ws_def onStderr_def init_locals_def

lemmas eval_run =
  runPythonScript_def runPythonScript_venv_def behaves_def settle_def onClose_def
  show_code_def show_int_def Let_def

lemmas eval_handler =
  handler_def handler_venv_def process_upload_def ensure_uploadDir_def write_uploads_def
  staged_def uploadDir_def respond_def server_error_def success_response_def
  unlink_logged_def bad_request_def method_not_allowed_def upload_of_def empty_world_def
  complete_upload_def

text \<open>
  Where the two listeners differ: a chunk that ends with the marker gives the empty
  string after it. The first listing assigns it, the second keeps the old value, since
  its guard \<open>if (parts[1])\<close> is false for the empty string.
\<close>

lemma empty_capture_by_listing:
  "onStdout st ''Extracted information:'' = Some (st\<lparr>extractedInfo := []\<rparr>)
   \<and> onStdout_venv st ''Extracted information:'' = Some st"
  by (simp add: eval_parser)

text \<open>
  The stream \<open>Extracted information: X\<close> delivered as the chunks \<open>Extracted inf\<close>
  and \<open>ormation: X\<close>, exit code 0: both listings resolve with an empty
  \<open>extractedInfo\<close>, not with \<open>X\<close>.
\<close>

theorem C1_split_marker_counterexample:
  "fst (runPythonScript ''/app''
          (behaves \<lparr>events = [Stdout ''Extracted inf'', Stdout ''ormation: X''],
                    closing = Close (Some 0), fs_after = upload_files\<rparr>)
          ''/tmp/document-analyzer/up1.pdf'' ''date_vendor'' upload_world)
     = Some (Resolved (PythonScriptResult [] []))
   \<and> fst (runPythonScript_venv ''/app''
          (behaves \<lparr>events = [Stdout ''Extracted inf'', Stdout ''ormation: X''],
                    closing = Close (Some 0), fs_after = upload_files\<rparr>)
          ''/tmp/document-analyzer/up1.pdf'' ''date_vendor'' upload_world)
     = Some (Resolved (PythonScriptResult [] []))"
  by (simp add: eval_run eval_parser)

text \<open>
  Claim C1, as amended. The listeners look at each chunk on its own and keep no buffer:
  two chunks neither of which holds a whole marker leave all variables as they were,
  also when a marker lies across the boundary between them; the field is captured when
  the marker arrives whole in one chunk, as in \<open>Extracted information: X\<close>.
\<close>

theorem C1_chunks_parsed_one_by_one:
  assumes "\<not> has_marker c" and "\<not> has_marker d"
  shows "listen onStdout st [Stdout c, Stdout d] = Some st
       \<and> listen onStdout_venv st [Stdout c, Stdout d] = Some st
       \<and> listen onStdout st [Stdout ''Extracted information: X''] = Some (st\<lparr>extractedInfo := ''X''\<rparr>)
       \<and> listen onStdout_venv st [Stdout ''Extracted information: X'']
           = Some (st\<lparr>extractedInfo := ''X''\<rparr>)"
proof -
  have "listen onStdout st [Stdout c, Stdout d] = Some st"
    using assms by (simp add: onStdout_no_marker)
  moreover have "listen onStdout_venv st [Stdout c, Stdout d] = Some st"
    using assms by (simp add: onStdout_venv_no_marker)
  moreover have "listen onStdout st [Stdout ''Extracted information: X''] = Some (st\<lparr>extractedInfo := ''X''\<rparr>)"
    by (simp add: eval_parser)
  moreover have "listen onStdout_venv st [Stdout ''Extracted information: X'']
           = Some (st\<lparr>extractedInfo := ''X''\<rparr>)"
    by (simp add: eval_parser)
  ultimately show ?thesis by blast
qed

text \<open>The split of the example: neither half holds a marker, the whole does.\<close>

theorem C1_witness:
  "\<not> has_marker ''Extracted inf'' \<and> \<not> has_marker ''ormation: X''
   \<and> has_marker (''Extracted inf'' @ ''ormation: X'')
   \<and> listen onStdout \<lparr>extractedInfo = ''old'', stdErr = [], newFilename = ''old.pdf''\<rparr>
        [Stdout ''Extracted inf'', Stdout ''ormation: X'']
       = Some \<lparr>extractedInfo = ''old'', stdErr = [], newFilename = ''old.pdf''\<rparr>
   \<and> listen onStdout_venv \<lparr>extractedInfo = ''old'', stdErr = [], newFilename = ''old.pdf''\<rparr>
        [Stdout ''Extracted inf'', Stdout ''ormation: X'']
       = Some \<lparr>extractedInfo = ''old'', stdErr = [], newFilename = ''old.pdf''\<rparr>
   \<and> listen onStdout \<lparr>extractedInfo = ''old'', stdErr = [], newFilename = ''old.pdf''\<rparr>
        [Stdout ''Extracted information: X'']
       = Some \<lparr>extractedInfo = ''X'', stdErr = [], newFilename = ''old.pdf''\<rparr>"
proof -
  have a: "\<not> has_marker ''Extracted inf''"
    by (simp add: has_marker_def EXTRACTED_def GENERATED_def RENAMED_def)
  have b: "\<not> has_marker ''ormation: X''"
    by (simp add: has_marker_def EXTRACTED_def GENERATED_def RENAMED_def)
  have c: "has_marker (''Extracted inf'' @ ''ormation: X'')"
    by (simp add: has_marker_def EXTRACTED_def GENERATED_def RENAMED_def)
  show ?thesis
    using a b c C1_chunks_parsed_one_by_one [OF a b,
        of "\<lparr>extractedInfo = ''old'', stdErr = [], newFilename = ''old.pdf''\<rparr>"]
    by simp
qed

text \<open>
  Claim C3. A chunk in which the rename marker occurs once sets \<open>newFilename\<close> to the
  trimmed text after the marker, whatever the variable held before and whatever else
  the chunk holds. For the two chunks of the example, with exit code 0, both listings
  resolve with \<open>Invoice #123\<close> and \<open>2024-01-01_Acme_FINAL.pdf\<close>.
\<close>

theorem C3_rename_marker_overrides:
  assumes "\<not> js_includes (pre @ butlast RENAMED) RENAMED" and "\<not> js_includes post RENAMED"
  shows "(\<exists>st'. onStdout st (pre @ RENAMED @ post) = Some st' \<and> newFilename st' = js_trim post)
       \<and> (\<exists>st'. onStdout_venv st (pre @ RENAMED @ post) = Some st' \<and> newFilename st' = js_trim post)
       \<and> fst (runPythonScript cwd
            (behaves \<lparr>events = [Stdout ''...Extracted information: Invoice #123'',
                Stdout '' Generated new filename: 2024-01-01_Acme.pdf File renamed successfully to: 2024-01-01_Acme_FINAL.pdf''],
                      closing = Close (Some 0), fs_after = files\<rparr>) filePath nc w)
           = Some (Resolved (PythonScriptResult ''Invoice #123'' ''2024-01-01_Acme_FINAL.pdf''))
       \<and> fst (runPythonScript_venv cwd
            (behaves \<lparr>events = [Stdout ''...Extracted information: Invoice #123'',
                Stdout '' Generated new filename: 2024-01-01_Acme.pdf File renamed successfully to: 2024-01-01_Acme_FINAL.pdf''],
                      closing = Close (Some 0), fs_after = files\<rparr>) filePath nc w)
           = Some (Resolved (PythonScriptResult ''Invoice #123'' ''2024-01-01_Acme_FINAL.pdf''))"
proof -
  have "fst (runPythonScript cwd
            (behaves \<lparr>events = [Stdout ''...Extracted information: Invoice #123'',
                Stdout '' Generated new filename: 2024-01-01_Acme.pdf File renamed successfully to: 2024-01-01_Acme_FINAL.pdf''],
                      closing = Close (Some 0), fs_after = files\<rparr>) filePath nc w)
           = Some (Resolved (PythonScriptResult ''Invoice #123'' ''2024-01-01_Acme_FINAL.pdf''))"
    by (simp add: eval_run eval_parser)
  moreover have "fst (runPythonScript_venv cwd
            (behaves \<lparr>events = [Stdout ''...Extracted information: Invoice #123'',
                Stdout '' Generated new filename: 2024-01-01_Acme.pdf File renamed successfully to: 2024-01-01_Acme_FINAL.pdf''],
                      closing = Close (Some 0), fs_after = files\<rparr>) filePath nc w)
           = Some (Resolved (PythonScriptResult ''Invoice #123'' ''2024-01-01_Acme_FINAL.pdf''))"
    by (simp add: eval_run eval_parser)
  ultimately show ?thesis
    using onStdout_renamed [OF assms] onStdout_venv_renamed [OF assms] by blast
qed

lemmas eval_markers = has_marker_def EXTRACTED_def GENERATED_def RENAMED_def

text \<open>The second chunk of the example, after a candidate had been captured.\<close>

theorem C3_witness:
  "\<not> js_includes ('' Generated new filename: 2024-01-01_Acme.pdf '' @ butlast RENAMED) RENAMED
   \<and> \<not> js_includes '' 2024-01-01_Acme_FINAL.pdf'' RENAMED
   \<and> (\<exists>st'. onStdout \<lparr>extractedInfo = ''Invoice #123'', stdErr = [], newFilename = ''earlier.pdf''\<rparr>
          ('' Generated new filename: 2024-01-01_Acme.pdf '' @ RENAMED @ '' 2024-01-01_Acme_FINAL.pdf'')
          = Some st' \<and> newFilename st' = ''2024-01-01_Acme_FINAL.pdf'')
   \<and> (\<exists>st'. onStdout_venv \<lparr>extractedInfo = ''Invoice #123'', stdErr = [], newFilename = ''earlier.pdf''\<rparr>
          ('' Generated new filename: 2024-01-01_Acme.pdf '' @ RENAMED @ '' 2024-01-01_Acme_FINAL.pdf'')
          = Some st' \<and> newFilename st' = ''2024-01-01_Acme_FINAL.pdf'')"
proof -
  have a: "\<not> js_includes ('' Generated new filename: 2024-01-01_Acme.pdf '' @ butlast RENAMED) RENAMED"
    by (simp add: RENAMED_def)
  have b: "\<not> js_includes '' 2024-01-01_Acme_FINAL.pdf'' RENAMED"
    by (simp add: RENAMED_def)
  have t: "js_trim '' 2024-01-01_Acme_FINAL.pdf'' = ''2024-01-01_Acme_FINAL.pdf''"
    by (simp add: js_trim_def is_ws_def)
  show ?thesis
    using a b C3_rename_marker_overrides [OF a b,
        where st = "\<lparr>extractedInfo = ''Invoice #123'', stdErr = [], newFilename = ''earlier.pdf''\<rparr>"
          and cwd = "''/app''" and files = "{}" and filePath = "''/tmp/document-analyzer/up1.pdf''"
          and nc = "''date_vendor''" and w = empty_world]
    unfolding t by blast
qed

text \<open>
  Two chunks with the extracted marker: the second decides. A generated marker after a
  rename marker of an earlier chunk: the generated name replaces the renamed one.
\<close>

theorem C10_witness:
  "js_includes ''Extracted information: B'' EXTRACTED
   \<and> \<not> js_includes ''done'' EXTRACTED
   \<and> (\<exists>s2. listen onStdout init_locals
              ([Stdout ''Extracted information: A''] @ Stdout ''Extracted information: B''
                 # [Stdout ''done'', Stderr ''Extracted information: C'']) = Some s2
           \<and> extractedInfo s2 = ''B'')
   \<and> js_includes ''Generated new filename: draft.pdf'' GENERATED
   \<and> (\<exists>s2. listen onStdout init_locals
              ([Stdout ''File renamed successfully to: final.pdf'']
                 @ Stdout ''Generated new filename: draft.pdf'' # []) = Some s2
           \<and> newFilename s2 = ''draft.pdf'')
   \<and> \<not> js_includes ([] @ butlast GENERATED) GENERATED
   \<and> \<not> js_includes '' draft.pdf'' GENERATED
   \<and> \<not> js_includes ([] @ GENERATED @ '' draft.pdf'') RENAMED
   \<and> (\<exists>s1. onStdout \<lparr>extractedInfo = [], stdErr = [], newFilename = ''final.pdf''\<rparr>
              ([] @ GENERATED @ '' draft.pdf'') = Some s1
           \<and> newFilename s1 = ''draft.pdf'')"
proof -
  have a: "js_includes ''Extracted information: B'' EXTRACTED"
    by (simp add: EXTRACTED_def)
  have b: "\<forall>d. Stdout d \<in> set [Stdout ''done'', Stderr ''Extracted information: C'']
          \<longrightarrow> \<not> js_includes d EXTRACTED"
    by (simp add: EXTRACTED_def)
  have c: "js_includes ''Generated new filename: draft.pdf'' GENERATED"
    by (simp add: GENERATED_def)
  have d: "\<not> js_includes ([] @ butlast GENERATED) GENERATED"
      "\<not> js_includes '' draft.pdf'' GENERATED"
      "\<not> js_includes ([] @ GENERATED @ '' draft.pdf'') RENAMED"
    by (simp_all add: GENERATED_def RENAMED_def)
  have v1: "onStdout init_locals ''Extracted information: B''
              = Some (init_locals\<lparr>extractedInfo := ''B''\<rparr>)"
    by (simp add: eval_parser)
  have v2: "onStdout init_locals ''Generated new filename: draft.pdf''
              = Some (init_locals\<lparr>newFilename := ''draft.pdf''\<rparr>)"
    by (simp add: eval_parser)
  have t: "js_trim '' draft.pdf'' = ''draft.pdf''"
    by (simp add: js_trim_def is_ws_def)
  have p1: "\<exists>s2. listen onStdout init_locals
              ([Stdout ''Extracted information: A''] @ Stdout ''Extracted information: B''
                 # [Stdout ''done'', Stderr ''Extracted information: C'']) = Some s2
           \<and> extractedInfo s2 = ''B''"
  proof -
    have "\<exists>s1 s2. onStdout init_locals ''Extracted information: B'' = Some s1
            \<and> listen onStdout init_locals
              ([Stdout ''Extracted information: A''] @ Stdout ''Extracted information: B''
                 # [Stdout ''done'', Stderr ''Extracted information: C'']) = Some s2
            \<and> extractedInfo s2 = extractedInfo s1"
      using a b C10_last_chunk_wins [where c = "''Extracted information: B''"
        and after = "[Stdout ''done'', Stderr ''Extracted information: C'']" and st = init_locals
        and init = init_locals and before = "[Stdout ''Extracted information: A'']"
        and pre = "[]" and post = "[]"]
      by blast
    then show ?thesis unfolding v1 by auto
  qed
  have p2: "\<exists>s2. listen onStdout init_locals
              ([Stdout ''File renamed successfully to: final.pdf'']
                 @ Stdout ''Generated new filename: draft.pdf'' # []) = Some s2
           \<and> newFilename s2 = ''draft.pdf''"
  proof -
    have e: "\<forall>d. Stdout d \<in> set [] \<longrightarrow> \<not> js_includes d GENERATED \<and> \<not> js_includes d RENAMED"
      by simp
    have "\<exists>s1 s2. onStdout init_locals ''Generated new filename: draft.pdf'' = Some s1
            \<and> listen onStdout init_locals
              ([Stdout ''File renamed successfully to: final.pdf'']
                 @ Stdout ''Generated new filename: draft.pdf'' # []) = Some s2
            \<and> newFilename s2 = newFilename s1"
      using c e C10_last_chunk_wins [where c = "''Generated new filename: draft.pdf''"
        and after = "[]" and st = init_locals
        and init = init_locals and before = "[Stdout ''File renamed successfully to: final.pdf'']"
        and pre = "[]" and post = "[]"]
      by blast
    then show ?thesis unfolding v2 by auto
  qed
  have p3: "\<exists>s1. onStdout \<lparr>extractedInfo = [], stdErr = [], newFilename = ''final.pdf''\<rparr>
              ([] @ GENERATED @ '' draft.pdf'') = Some s1
           \<and> newFilename s1 = ''draft.pdf''"
    using d C10_last_chunk_wins [where c = "[]" and after = "[]" and init = init_locals
        and before = "[]" and pre = "[]" and post = "'' draft.pdf''"
        and st = "\<lparr>extractedInfo = [], stdErr = [], newFilename = ''final.pdf''\<rparr>"]
    unfolding t by blast
  have b': "\<not> js_includes ''done'' EXTRACTED"
    by (simp add: EXTRACTED_def)
  show ?thesis using a b' c d p1 p2 p3 by blast
qed

text \<open>A run that prints a marker and exits with code 1, and one that exits with 0.\<close>

theorem C4_witness:
  "closing failed_run = Close (Some 1) \<and> Some (1::int) \<noteq> Some 0
   \<and> complete_upload (upload_of ''/tmp/document-analyzer/up1.pdf'' ''date_vendor'')
        (Multi \<lparr>filepath = ''/tmp/document-analyzer/up1.pdf'', originalFilename = ''invoice.pdf''\<rparr> [])
        (Multi ''date_vendor'' [])
   \<and> fst (runPythonScript ''/app'' (behaves failed_run) ''/tmp/document-analyzer/up1.pdf''
            ''date_vendor'' upload_world)
       = Some (Rejected ''Python script exited with code 1: Traceback'')
   \<and> fst (handler ''/app'' (behaves failed_run)
            (upload_of ''/tmp/document-analyzer/up1.pdf'' ''date_vendor'') empty_world)
       = Some \<lparr>status = 500, headers = [],
               body = Json [(''success'', JBool False),
                            (''message'', JStr ''Server error: Python script exited with code 1: Traceback'')]\<rparr>
   \<and> closing clean_run = Close (Some 0)
   \<and> fst (runPythonScript ''/app'' (behaves clean_run) ''/tmp/document-analyzer/up1.pdf''
            ''date_vendor'' upload_world)
       = Some (Resolved (PythonScriptResult ''Invoice #123'' []))"
proof -
  have a: "closing failed_run = Close (Some 1)" by (simp add: failed_run_def)
  have b: "complete_upload (upload_of ''/tmp/document-analyzer/up1.pdf'' ''date_vendor'')
        (Multi \<lparr>filepath = ''/tmp/document-analyzer/up1.pdf'', originalFilename = ''invoice.pdf''\<rparr> [])
        (Multi ''date_vendor'' [])"
    by (simp add: complete_upload_def upload_of_def)
  have c: "closing clean_run = Close (Some 0)" by (simp add: clean_run_def)
  have d: "fst (runPythonScript ''/app'' (behaves clean_run) ''/tmp/document-analyzer/up1.pdf''
            ''date_vendor'' upload_world)
       = Some (Resolved (PythonScriptResult ''Invoice #123'' []))"
    by (simp add: eval_run eval_parser clean_run_def)
  have e: "show_code (Some 1) = ''1''" by (simp add: show_code_def show_int_def)
  have f: "stderr_text (events failed_run) = ''Traceback''" by (simp add: failed_run_def)
  have g: "''Python script exited with code '' @ ''1'' @ '': '' @ ''Traceback''
             = ''Python script exited with code 1: Traceback''"
    by simp
  have h: "''Server error: Python script exited with code '' @ ''1'' @ '': '' @ ''Traceback''
             = ''Server error: Python script exited with code 1: Traceback''"
    by simp
  have ne: "Some (1::int) \<noteq> Some 0" by simp
  note inst = C4_nonzero_exit_is_failure [OF a, where cwd = "''/app''"
        and filePath = "''/tmp/document-analyzer/up1.pdf''" and nc = "''date_vendor''"
        and w = upload_world
        and req = "upload_of ''/tmp/document-analyzer/up1.pdf'' ''date_vendor''"
        and f = "Multi \<lparr>filepath = ''/tmp/document-analyzer/up1.pdf'', originalFilename = ''invoice.pdf''\<rparr> []"
        and n = "Multi ''date_vendor'' []", unfolded e f g h]
  note inst' = C4_nonzero_exit_is_failure [OF a, where cwd = "''/app''"
        and filePath = "''/tmp/document-analyzer/up1.pdf''" and nc = "''date_vendor''"
        and w = empty_world
        and req = "upload_of ''/tmp/document-analyzer/up1.pdf'' ''date_vendor''"
        and f = "Multi \<lparr>filepath = ''/tmp/document-analyzer/up1.pdf'', originalFilename = ''invoice.pdf''\<rparr> []"
        and n = "Multi ''date_vendor'' []", unfolded e f g h]
  show ?thesis using a b c d ne inst inst' by blast
qed

text \<open>A run that prints progress lines only and exits with code 0.\<close>

theorem C6_witness:
  "closing silent_run = Close (Some 0) \<and> \<not> has_marker (stdout_text (events silent_run))
   \<and> complete_upload (upload_of ''/tmp/document-analyzer/up1.pdf'' ''date_vendor'')
        (Multi \<lparr>filepath = ''/tmp/document-analyzer/up1.pdf'', originalFilename = ''invoice.pdf''\<rparr> [])
        (Multi ''date_vendor'' [])
   \<and> fst (runPythonScript ''/app'' (behaves silent_run) ''/tmp/document-analyzer/up1.pdf''
            ''date_vendor'' upload_world)
       = Some (Resolved (PythonScriptResult [] []))
   \<and> fst (handler ''/app'' (behaves silent_run)
            (upload_of ''/tmp/document-analyzer/up1.pdf'' ''date_vendor'') empty_world)
       = Some \<lparr>status = 200, headers = [],
               body = Json [(''success'', JBool True),
                            (''extractedInfo'', JStr []),
                            (''newFilename'', JStr []),
                            (''message'', JStr ''Document processed successfully'')]\<rparr>"
proof -
  have a: "closing silent_run = Close (Some 0)" by (simp add: silent_run_def)
  have b: "\<not> has_marker (stdout_text (events silent_run))"
    by (simp add: silent_run_def eval_markers)
  have c: "complete_upload (upload_of ''/tmp/document-analyzer/up1.pdf'' ''date_vendor'')
        (Multi \<lparr>filepath = ''/tmp/document-analyzer/up1.pdf'', originalFilename = ''invoice.pdf''\<rparr> [])
        (Multi ''date_vendor'' [])"
    by (simp add: complete_upload_def upload_of_def)
  note inst = C6_no_marker_is_empty_success [OF a disjI1 [OF b], where cwd = "''/app''"
        and filePath = "''/tmp/document-analyzer/up1.pdf''" and nc = "''date_vendor''"
        and w = upload_world
        and req = "upload_of ''/tmp/document-analyzer/up1.pdf'' ''date_vendor''"
        and f = "Multi \<lparr>filepath = ''/tmp/document-analyzer/up1.pdf'', originalFilename = ''invoice.pdf''\<rparr> []"
        and n = "Multi ''date_vendor'' []"]
  note inst' = C6_no_marker_is_empty_success [OF a disjI1 [OF b], where cwd = "''/app''"
        and filePath = "''/tmp/document-analyzer/up1.pdf''" and nc = "''date_vendor''"
        and w = empty_world
        and req = "upload_of ''/tmp/document-analyzer/up1.pdf'' ''date_vendor''"
        and f = "Multi \<lparr>filepath = ''/tmp/document-analyzer/up1.pdf'', originalFilename = ''invoice.pdf''\<rparr> []"
        and n = "Multi ''date_vendor'' []"]
  show ?thesis using a b c inst inst' by blast
qed

text \<open>A GET request.\<close>

theorem C9_witness:
  "''GET'' \<noteq> ''POST'' \<and> ''GET'' \<noteq> ''OPTIONS''
   \<and> handler ''/app'' failing_analyzer \<lparr>req_method = ''GET'', form = Inr ([], [])\<rparr> empty_world
       = (Some \<lparr>status = 405, headers = [],
                body = Json [(''message'', JStr ''Method not allowed'')]\<rparr>, empty_world)
   \<and> handler_venv ''/app'' failing_analyzer \<lparr>req_method = ''GET'', form = Inr ([], [])\<rparr> empty_world
       = (Some \<lparr>status = 405, headers = [],
                body = Json [(''message'', JStr ''Method not allowed'')]\<rparr>, empty_world)
   \<and> map_of [(''message'', JStr ''Method not allowed'')] ''success'' = None"
proof -
  have a: "req_method \<lparr>req_method = ''GET'', form = Inr ([], [])\<rparr> \<noteq> ''POST''" by simp
  have b: "req_method \<lparr>req_method = ''GET'', form = Inr ([], [])\<rparr> \<noteq> ''OPTIONS''" by simp
  have c: "''GET'' \<noteq> ''POST''" "''GET'' \<noteq> ''OPTIONS''" by simp_all
  have d: "map_of [(''message'', JStr ''Method not allowed'')] ''success'' = None" by simp
  note inst = C9_other_methods_rejected [OF a b, where cwd = "''/app''"
        and an = failing_analyzer and w = empty_world]
  show ?thesis using c d inst by blast
qed

text \<open>An OPTIONS request, given to both listings.\<close>

theorem C8_witness:
  "req_method \<lparr>req_method = ''OPTIONS'', form = Inr ([], [])\<rparr> = ''OPTIONS''
   \<and> handler ''/app'' failing_analyzer \<lparr>req_method = ''OPTIONS'', form = Inr ([], [])\<rparr> empty_world
       = (Some \<lparr>status = 200,
                headers = [(''Allow'', ''POST, OPTIONS''),
                           (''Access-Control-Allow-Origin'', ''*''),
                           (''Access-Control-Allow-Methods'', ''POST, OPTIONS''),
                           (''Access-Control-Allow-Headers'', ''Content-Type, Authorization'')],
                body = Empty\<rparr>, empty_world)
   \<and> handler_venv ''/app'' failing_analyzer \<lparr>req_method = ''OPTIONS'', form = Inr ([], [])\<rparr> empty_world
       = (Some \<lparr>status = 405, headers = [],
                body = Json [(''message'', JStr ''Method not allowed'')]\<rparr>, empty_world)"
proof -
  have a: "req_method \<lparr>req_method = ''OPTIONS'', form = Inr ([], [])\<rparr> = ''OPTIONS''" by simp
  note inst = C8_preflight_by_listing [OF a, where cwd = "''/app''"
        and an = failing_analyzer and w = empty_world]
  show ?thesis using a inst by blast
qed

text \<open>The second listing answers an OPTIONS request with 405 and a JSON body.\<close>

theorem C8_preflight_counterexample:
  "map_option status
     (fst (handler_venv ''/app'' failing_analyzer \<lparr>req_method = ''OPTIONS'', form = Inr ([], [])\<rparr>
             empty_world)) = Some 405
   \<and> map_option body
     (fst (handler_venv ''/app'' failing_analyzer \<lparr>req_method = ''OPTIONS'', form = Inr ([], [])\<rparr>
             empty_world)) \<noteq> Some Empty"
  by (simp add: handler_venv_def method_not_allowed_def)

text \<open>
  A POST request with a file and no naming convention: the message starts with a
  capital letter.
\<close>

theorem C5_message_counterexample:
  "map_option message_of
     (fst (handler ''/app'' failing_analyzer
             \<lparr>req_method = ''POST'',
              form = Inr ([], [(''file'', Single \<lparr>filepath = ''/tmp/document-analyzer/up1.pdf'',
                                                 originalFilename = ''invoice.pdf''\<rparr>)])\<rparr>
             empty_world))
     = Some (Some ''File and naming convention are required'')
   \<and> map_option message_of
     (fst (handler ''/app'' failing_analyzer
             \<lparr>req_method = ''POST'',
              form = Inr ([], [(''file'', Single \<lparr>filepath = ''/tmp/document-analyzer/up1.pdf'',
                                                 originalFilename = ''invoice.pdf''\<rparr>)])\<rparr>
             empty_world))
     \<noteq> Some (Some ''file and naming convention are required'')"
  by (simp add: handler_def process_upload_def bad_request_def message_of_def Let_def)

text \<open>A request without the naming convention, and one without the file.\<close>

theorem C5_witness:
  "req_method \<lparr>req_method = ''POST'',
            form = Inr ([], [(''file'', Single \<lparr>filepath = ''/tmp/document-analyzer/up1.pdf'',
                                               originalFilename = ''invoice.pdf''\<rparr>)])\<rparr> = ''POST''
   \<and> map_of ([] :: (string \<times> string formval) list) ''namingConvention'' = None
   \<and> fst (handler ''/app'' failing_analyzer
            \<lparr>req_method = ''POST'',
             form = Inr ([], [(''file'', Single \<lparr>filepath = ''/tmp/document-analyzer/up1.pdf'',
                                                originalFilename = ''invoice.pdf''\<rparr>)])\<rparr>
            empty_world)
       = Some \<lparr>status = 400, headers = [],
               body = Json [(''success'', JBool False),
                            (''message'', JStr ''File and naming convention are required'')]\<rparr>
   \<and> spawned (snd (handler ''/app'' failing_analyzer
            \<lparr>req_method = ''POST'',
             form = Inr ([], [(''file'', Single \<lparr>filepath = ''/tmp/document-analyzer/up1.pdf'',
                                                originalFilename = ''invoice.pdf''\<rparr>)])\<rparr>
            empty_world)) = []
   \<and> map_of ([] :: (string \<times> upfile formval) list) ''file'' = None
   \<and> fst (handler_venv ''/app'' failing_analyzer
            \<lparr>req_method = ''POST'', form = Inr ([(''namingConvention'', Single ''date_vendor'')], [])\<rparr>
            empty_world)
       = Some \<lparr>status = 400, headers = [],
               body = Json [(''success'', JBool False),
                            (''message'', JStr ''File and naming convention are required'')]\<rparr>"
proof -
  have a: "req_method \<lparr>req_method = ''POST'',
            form = Inr ([], [(''file'', Single \<lparr>filepath = ''/tmp/document-analyzer/up1.pdf'',
                                               originalFilename = ''invoice.pdf''\<rparr>)])\<rparr> = ''POST''"
    by simp
  have b: "form \<lparr>req_method = ''POST'',
            form = Inr ([], [(''file'', Single \<lparr>filepath = ''/tmp/document-analyzer/up1.pdf'',
                                               originalFilename = ''invoice.pdf''\<rparr>)])\<rparr>
           = Inr ([], [(''file'', Single \<lparr>filepath = ''/tmp/document-analyzer/up1.pdf'',
                                               originalFilename = ''invoice.pdf''\<rparr>)])"
    by simp
  have c: "map_of ([] :: (string \<times> string formval) list) ''namingConvention'' = None" by simp
  have a': "req_method \<lparr>req_method = ''POST'',
              form = Inr ([(''namingConvention'', Single ''date_vendor'')], [])\<rparr> = ''POST''"
    by simp
  have b': "form \<lparr>req_method = ''POST'',
              form = Inr ([(''namingConvention'', Single ''date_vendor'')], [])\<rparr>
            = Inr ([(''namingConvention'', Single ''date_vendor'')], [])"
    by simp
  have c': "map_of ([] :: (string \<times> upfile formval) list) ''file'' = None" by simp
  have sp: "spawned empty_world = []" by (simp add: empty_world_def)
  note inst = C5_missing_part_is_bad_request [OF a b disjI2 [OF c], where cwd = "''/app''"
        and an = failing_analyzer and w = empty_world, unfolded sp]
  note inst' = C5_missing_part_is_bad_request [OF a' b' disjI1 [OF c'], where cwd = "''/app''"
        and an = failing_analyzer and w = empty_world]
  show ?thesis using a c c' inst inst' by blast
qed

end
